theory Spec2Isabelle
  imports Main "HOL-Library.Word" "HOL-Library.Sublist"
begin

section \<open>The WAL reader of the sidecar: \<^verbatim>\<open>retrieval/manager.go\<close>\<close>

text \<open>
  The theory embeds \<^verbatim>\<open>PrometheusReader\<close>, its constructor, \<^verbatim>\<open>Run\<close> and \<^verbatim>\<open>Stop\<close>.
  \<^verbatim>\<open>Run\<close> talks to four collaborators: the WAL record reader and decoder (external
  libraries), the series cache and \<^verbatim>\<open>NewMetricFamily\<close> (package \<^verbatim>\<open>retrieval\<close>, in other
  files), the logger and the appender. What the reader and the decoder report is the input
  of the model, one event per call of \<^verbatim>\<open>reader.Next()\<close>; what \<^verbatim>\<open>Run\<close> does to the logger
  and the appender is its output, a list of effects in program order.
\<close>

subsection \<open>Data\<close>

type_synonym uint64 = "64 word"
type_synonym int64 = "64 word"

text \<open>A \<^verbatim>\<open>float64\<close> is carried as its IEEE-754 bit pattern: \<^verbatim>\<open>Run\<close> only copies it.\<close>

type_synonym float64 = "64 word"

datatype error = Error string

text \<open>
  The two run-time panics of the file: \<^verbatim>\<open>make\<close> with a capacity below the length
  (line 96, \<^verbatim>\<open>len(lset)-1\<close> for an empty label set) and a call of a nil function value
  (line 134).
\<close>

datatype panic = MakesliceCapOutOfRange | NilFuncCall

record Label =
  label_Name :: string
  label_Value :: string

type_synonym Labels = "Label list"

text \<open>\<^verbatim>\<open>labels.MetricName\<close> of the Prometheus label package.\<close>

definition MetricName :: string where
  "MetricName = ''__name__''"

record RefSeries =
  series_Ref :: uint64
  series_Labels :: Labels

record RefSample =
  sample_Ref :: uint64
  sample_T :: int64
  sample_V :: float64

text \<open>
  The protocol-buffer messages of \<^verbatim>\<open>client_model\<close>, with the fields \<^verbatim>\<open>Run\<close> assigns;
  an optional field is a pointer, \<open>None\<close> when nil. The fields \<^verbatim>\<open>Run\<close> never touches
  (\<^verbatim>\<open>Help\<close>, \<^verbatim>\<open>Gauge\<close>, \<^verbatim>\<open>Counter\<close>, \<^verbatim>\<open>Summary\<close>, \<^verbatim>\<open>Histogram\<close>) stay nil and are left out.
\<close>

datatype MetricType =
  MetricType_COUNTER | MetricType_GAUGE | MetricType_SUMMARY | MetricType_UNTYPED
  | MetricType_HISTOGRAM

record LabelPair =
  pair_Name :: "string option"
  pair_Value :: "string option"

datatype Untyped = Untyped (untyped_Value: "float64 option")

record Metric =
  metric_Label :: "LabelPair list"
  metric_Untyped :: "Untyped option"
  metric_TimestampMs :: "int64 option"

record dto_MetricFamily =
  family_Name :: "string option"
  family_Type :: "MetricType option"
  family_Metric :: "Metric list"

subsection \<open>Collaborators that are not in this file\<close>

text \<open>
  The constant \<^verbatim>\<open>NoTimestamp\<close> and the function \<^verbatim>\<open>NewMetricFamily\<close> are parameters of
  the model; \<open>'f\<close> is the type of what \<^verbatim>\<open>NewMetricFamily\<close> returns and the appender takes.
\<close>

record 'f env =
  NoTimestamp :: int64
  NewMetricFamily :: "dto_MetricFamily \<Rightarrow> int64 list \<Rightarrow> Labels \<Rightarrow> error + 'f"

text \<open>
  Modelled from the spec: the series cache (\<^verbatim>\<open>newSeriesCache\<close>, \<^verbatim>\<open>set\<close>, \<^verbatim>\<open>get\<close> and its
  garbage collector) is absent from the sources at hand. Section 4.3: an entry is
  \<open>(labels, maxSegmentSeen)\<close> keyed by ref; \<^verbatim>\<open>set\<close> inserts or updates the entry and raises
  \<open>maxSegmentSeen\<close> to the maximum of the old and the observed segment; \<^verbatim>\<open>get\<close> returns the
  labels or absent; garbage collection removes every entry with
  \<open>maxSegmentSeen < S_min\<close>. The cache starts empty.
\<close>

type_synonym seriesCache = "uint64 \<rightharpoonup> (Labels \<times> int)"

definition newSeriesCache :: seriesCache where
  "newSeriesCache = Map.empty"

definition cache_set :: "seriesCache \<Rightarrow> uint64 \<Rightarrow> Labels \<Rightarrow> int \<Rightarrow> seriesCache" where
  "cache_set c ref lset seg =
     c(ref \<mapsto> (lset, case c ref of None \<Rightarrow> seg | Some (old, m) \<Rightarrow> max m seg))"

definition cache_get :: "seriesCache \<Rightarrow> uint64 \<Rightarrow> Labels option" where
  "cache_get c ref = map_option fst (c ref)"

definition garbageCollect :: "int \<Rightarrow> seriesCache \<Rightarrow> seriesCache" where
  "garbageCollect smin c =
     (\<lambda>ref. case c ref of
        None \<Rightarrow> None
      | Some (lset, m) \<Rightarrow> if m < smin then None else Some (lset, m))"

text \<open>
  What the record decoder of the TSDB library reports for one record: its type and, for
  a series or a sample record, the decoded batch or the decoding error.
\<close>

datatype wal_record =
  RecordSeries "error + RefSeries list"
  | RecordSamples "error + RefSample list"
  | RecordTombstones
  | RecordInvalid

text \<open>
  One event is what the loop of \<^verbatim>\<open>Run\<close> observes next:
  \<^item> \<open>Next_true err seg rec\<close>: \<^verbatim>\<open>reader.Next()\<close> returned true; \<^verbatim>\<open>reader.Err()\<close> then gives
    \<open>err\<close>, \<^verbatim>\<open>reader.Record()\<close> decodes as \<open>rec\<close> and \<^verbatim>\<open>tailer.CurrentSegment()\<close> is \<open>seg\<close>;
  \<^item> \<open>Next_false err\<close>: \<^verbatim>\<open>reader.Next()\<close> returned false, with \<^verbatim>\<open>reader.Err()\<close> standing at
    \<open>err\<close> (\<open>None\<close> at the end of the stream, which is what a cancelled tailer gives);
  \<^item> \<open>CacheGC smin\<close>: between two reads, the cache's background goroutine evicted the
    entries below segment \<open>smin\<close>.
  A trace that ends without \<open>Next_false\<close> leaves \<^verbatim>\<open>Run\<close> blocked in \<^verbatim>\<open>reader.Next()\<close>.
\<close>

datatype event =
  Next_true "error option" int wal_record
  | Next_false "error option"
  | CacheGC int

text \<open>
  The effects on the collaborators. \<open>IncCounter\<close> is an increment of a metrics counter:
  \<^verbatim>\<open>PrometheusReader\<close> holds no counter and no definition below emits this effect.
\<close>

datatype 'f effect =
  LogInfo string
  | LogError error
  | LogWarnUnknownRef RefSample
  | LogWarnConstruct error
  | Append 'f
  | IncCounter string

fun isIncCounter :: "'f effect \<Rightarrow> bool" where
  "isIncCounter (IncCounter c) = True"
| "isIncCounter _ = False"


subsection \<open>The translation of one sample (lines 85 to 124)\<close>

text \<open>Lines 97 to 106: the loop over the label set, on the name and the label slice.\<close>

definition labelPair :: "Label \<Rightarrow> LabelPair" where
  "labelPair l = \<lparr>pair_Name = Some (label_Name l), pair_Value = Some (label_Value l)\<rparr>"

fun labelLoop :: "Labels \<Rightarrow> string option \<times> LabelPair list \<Rightarrow> string option \<times> LabelPair list" where
  "labelLoop [] acc = acc"
| "labelLoop (l # ls) (name, pairs) =
     (if label_Name l = MetricName then labelLoop ls (Some (label_Value l), pairs)
      else labelLoop ls (name, pairs @ [labelPair l]))"

text \<open>Lines 92 to 110: the metric family, once \<^verbatim>\<open>make\<close> on line 96 has returned.\<close>

definition metricFamily :: "Labels \<Rightarrow> RefSample \<Rightarrow> dto_MetricFamily" where
  "metricFamily lset sample =
     (let (name, pairs) = labelLoop lset (None, [])
      in \<lparr>family_Name = name,
          family_Type = Some MetricType_UNTYPED,
          family_Metric =
            [\<lparr>metric_Label = pairs,
              metric_Untyped = Some (Untyped (Some (sample_V sample))),
              metric_TimestampMs = Some (sample_T sample)\<rparr>]\<rparr>)"

text \<open>Lines 114 to 117: the copy of the label set.\<close>

definition targetLabels :: "Labels \<Rightarrow> Labels" where
  "targetLabels lset = foldl (\<lambda>acc l. acc @ [l]) [] lset"

text \<open>
  The body of the loop over the samples: the effects of one sample, and the panic that
  ends \<^verbatim>\<open>Run\<close> if there is one (\<open>None\<close>: the loop goes on with the next sample).
\<close>

definition processSample :: "'f env \<Rightarrow> seriesCache \<Rightarrow> RefSample \<Rightarrow> 'f effect list \<times> panic option" where
  "processSample env c sample =
     (case cache_get c (sample_Ref sample) of
        None \<Rightarrow> ([LogWarnUnknownRef sample], None)
      | Some lset \<Rightarrow>
          if int (length lset) - 1 < 0 then ([], Some MakesliceCapOutOfRange)
          else
            (case NewMetricFamily env (metricFamily lset sample) [NoTimestamp env]
                    (targetLabels lset) of
               Inl err \<Rightarrow> ([LogWarnConstruct err], None)
             | Inr f \<Rightarrow> ([Append f], None)))"

fun processSamples :: "'f env \<Rightarrow> seriesCache \<Rightarrow> RefSample list \<Rightarrow> 'f effect list \<times> panic option" where
  "processSamples env c [] = ([], None)"
| "processSamples env c (sample # rest) =
     (case processSample env c sample of
        (es, Some p) \<Rightarrow> (es, Some p)
      | (es, None) \<Rightarrow>
          (case processSamples env c rest of (es', r) \<Rightarrow> (es @ es', r)))"

text \<open>Lines 76 to 78: every series of the record goes into the cache.\<close>

definition processSeries :: "seriesCache \<Rightarrow> int \<Rightarrow> RefSeries list \<Rightarrow> seriesCache" where
  "processSeries c seg recordSeries =
     foldl (\<lambda>c' series. cache_set c' (series_Ref series) (series_Labels series) seg) c recordSeries"

subsection \<open>The loop of \<^verbatim>\<open>Run\<close> (lines 63 to 127)\<close>

datatype status = Running | Returned "error option" | Panicked panic

record 'f run_state =
  status :: status
  cache :: seriesCache
  effects :: "'f effect list"

definition step :: "'f env \<Rightarrow> 'f run_state \<Rightarrow> event \<Rightarrow> 'f run_state" where
  "step env st ev =
     (if status st \<noteq> Running then st
      else
        (case ev of
           CacheGC smin \<Rightarrow> st\<lparr>cache := garbageCollect smin (cache st)\<rparr>
         | Next_false err \<Rightarrow>
             st\<lparr>status := Returned None,
                effects := effects st @ [LogInfo ''Done processing WAL.'']\<rparr>
         | Next_true (Some err) seg rec \<Rightarrow> st\<lparr>status := Returned (Some err)\<rparr>
         | Next_true None seg rec \<Rightarrow>
             (case rec of
                RecordSeries (Inl err) \<Rightarrow> st\<lparr>effects := effects st @ [LogError err]\<rparr>
              | RecordSeries (Inr recordSeries) \<Rightarrow>
                  st\<lparr>cache := processSeries (cache st) seg recordSeries\<rparr>
              | RecordSamples (Inl err) \<Rightarrow> st\<lparr>effects := effects st @ [LogError err]\<rparr>
              | RecordSamples (Inr recordSamples) \<Rightarrow>
                  (case processSamples env (cache st) recordSamples of
                     (es, None) \<Rightarrow> st\<lparr>effects := effects st @ es\<rparr>
                   | (es, Some p) \<Rightarrow> st\<lparr>status := Panicked p, effects := effects st @ es\<rparr>)
              | RecordTombstones \<Rightarrow> st
              | RecordInvalid \<Rightarrow> st)))"

primrec loop :: "'f env \<Rightarrow> 'f run_state \<Rightarrow> event list \<Rightarrow> 'f run_state" where
  "loop env st [] = st"
| "loop env st (ev # evs) = loop env (step env st ev) evs"

subsection \<open>\<^verbatim>\<open>PrometheusReader\<close>, \<^verbatim>\<open>Run\<close> and \<^verbatim>\<open>Stop\<close>\<close>

text \<open>The cancel function that \<^verbatim>\<open>context.WithCancel\<close> returns on line 49.\<close>

datatype CancelFunc = CancelTailContext

record ('l, 'a) PrometheusReader =
  logger :: 'l
  walDirectory :: string
  appender :: 'a
  cancelTail :: "CancelFunc option"

definition NewPrometheusReader :: "'l \<Rightarrow> string \<Rightarrow> 'a \<Rightarrow> ('l, 'a) PrometheusReader" where
  "NewPrometheusReader lg dir app =
     \<lparr>logger = lg, walDirectory = dir, appender = app, cancelTail = None\<rparr>"

text \<open>
  The world \<^verbatim>\<open>Run\<close> meets: the error of \<^verbatim>\<open>tail.Tail\<close> (\<open>None\<close> when it opens the WAL) and
  the events of the reader.
\<close>

record world =
  tail_err :: "error option"
  reader_events :: "event list"

definition Run :: "'f env \<Rightarrow> ('l, 'a) PrometheusReader \<Rightarrow> world \<Rightarrow> ('l, 'a) PrometheusReader \<times> 'f run_state" where
  "Run env r w =
     (let r' = r\<lparr>cancelTail := Some CancelTailContext\<rparr>;
          started = [LogInfo ''Starting Prometheus reader...'']
      in case tail_err w of
           Some err \<Rightarrow>
             (r', \<lparr>status = Returned (Some err), cache = newSeriesCache,
                   effects = started @ [LogError err]\<rparr>)
         | None \<Rightarrow>
             (r', loop env \<lparr>status = Running, cache = newSeriesCache, effects = started\<rparr>
                    (reader_events w)))"

text \<open>\<^verbatim>\<open>Stop\<close> calls \<^verbatim>\<open>r.cancelTail\<close>: a panic when it is nil, else the function it invoked.\<close>

definition Stop :: "('l, 'a) PrometheusReader \<Rightarrow> panic + CancelFunc" where
  "Stop r = (case cancelTail r of None \<Rightarrow> Inl NilFuncCall | Some cancel \<Rightarrow> Inr cancel)"

subsection \<open>Which sample an \<^verbatim>\<open>Append\<close> belongs to\<close>






subsection \<open>A concrete environment for the scenarios\<close>

text \<open>
  Modelled from the spec: \<^verbatim>\<open>NewMetricFamily\<close> and the \<^verbatim>\<open>MetricFamily\<close> type it returns are
  absent from the sources at hand. Section 3 gives the outbound metric as name, labels
  without the name label, value, timestamp and reset timestamp; section 7 has translation
  fail per sample, "e.g. missing name label". The stand-in wraps its three arguments and
  fails on a family without a name. It only instantiates the parameter in the closed
  examples; the general theorems hold for every \<^verbatim>\<open>NewMetricFamily\<close>.
\<close>

record MetricFamily =
  mf_MetricFamily :: dto_MetricFamily
  mf_MetricResetTimestampMs :: "int64 list"
  mf_TargetLabels :: Labels

definition specNewMetricFamily :: "dto_MetricFamily \<Rightarrow> int64 list \<Rightarrow> Labels \<Rightarrow> error + MetricFamily" where
  "specNewMetricFamily pb resets targets =
     (if family_Name pb = None then Inl (Error ''missing metric name'')
      else Inr \<lparr>mf_MetricFamily = pb, mf_MetricResetTimestampMs = resets,
                mf_TargetLabels = targets\<rparr>)"

text \<open>The sentinel stands at the least \<^verbatim>\<open>int64\<close> here; no theorem depends on its value.\<close>

definition exampleEnv :: "MetricFamily env" where
  "exampleEnv = \<lparr>NoTimestamp = 0x8000000000000000, NewMetricFamily = specNewMetricFamily\<rparr>"

text \<open>
  Scenario S1 of the spec: the series \<open>ref = 7\<close> with labels \<open>__name__ = x\<close>, \<open>a = 1\<close>
  and the sample \<open>(7, t = 1000, v = 3.5)\<close>; \<open>0x400C000000000000\<close> is the bit pattern of 3.5.
\<close>

definition exampleLabels :: Labels where
  "exampleLabels =
     [\<lparr>label_Name = ''__name__'', label_Value = ''x''\<rparr>, \<lparr>label_Name = ''a'', label_Value = ''1''\<rparr>]"

definition exampleSample :: RefSample where
  "exampleSample = \<lparr>sample_Ref = 7, sample_T = 1000, sample_V = 0x400C000000000000\<rparr>"

definition exampleCache :: seriesCache where
  "exampleCache = cache_set newSeriesCache 7 exampleLabels 0"

definition exampleFamily :: dto_MetricFamily where
  "exampleFamily =
     \<lparr>family_Name = Some ''x'',
      family_Type = Some MetricType_UNTYPED,
      family_Metric =
        [\<lparr>metric_Label = [\<lparr>pair_Name = Some ''a'', pair_Value = Some ''1''\<rparr>],
          metric_Untyped = Some (Untyped (Some 0x400C000000000000)),
          metric_TimestampMs = Some 1000\<rparr>]\<rparr>"

definition exampleOutbound :: MetricFamily where
  "exampleOutbound =
     \<lparr>mf_MetricFamily = exampleFamily,
      mf_MetricResetTimestampMs = [0x8000000000000000],
      mf_TargetLabels = exampleLabels\<rparr>"

text \<open>A label set without the name label, for a series the stand-in refuses.\<close>

definition unnamedLabels :: Labels where
  "unnamedLabels = [\<lparr>label_Name = ''a'', label_Value = ''1''\<rparr>]"

definition exampleReader :: "(unit, unit) PrometheusReader" where
  "exampleReader = NewPrometheusReader () ''data/wal'' ()"

text \<open>A second sample of series 7, whose value is a NaN with a payload bit.\<close>

definition nanSample :: RefSample where
  "nanSample = \<lparr>sample_Ref = 7, sample_T = 2000, sample_V = 0x7FF8000000000001\<rparr>"

definition nanOutbound :: MetricFamily where
  "nanOutbound =
     \<lparr>mf_MetricFamily = metricFamily exampleLabels nanSample,
      mf_MetricResetTimestampMs = [0x8000000000000000],
      mf_TargetLabels = exampleLabels\<rparr>"

definition unnamedCache :: seriesCache where
  "unnamedCache = cache_set newSeriesCache 7 unnamedLabels 0"

definition exampleSeriesRecord :: event where
  "exampleSeriesRecord =
     Next_true None 0 (RecordSeries (Inr [\<lparr>series_Ref = 7, series_Labels = exampleLabels\<rparr>]))"

definition exampleSamplesRecord :: event where
  "exampleSamplesRecord = Next_true None 0 (RecordSamples (Inr [exampleSample]))"

text \<open>
  Scenario S5 with one more sample: the declaration and a sample of series 7 in segment 0,
  a collection that evicts nothing, then in segment 1 a sample of the undeclared series 8
  and a second sample of series 7.
\<close>

definition rotationEvents :: "event list" where
  "rotationEvents =
     [exampleSeriesRecord, exampleSamplesRecord, CacheGC 0,
      Next_true None 1 (RecordSamples (Inr [\<lparr>sample_Ref = 8, sample_T = 1500, sample_V = 0\<rparr>, nanSample]))]"

text \<open>Scenario S3: a sample in segment 2 whose declaration is not in the retained WAL.\<close>

definition unknownRefWorld :: world where
  "unknownRefWorld =
     \<lparr>tail_err = None,
      reader_events = [Next_true None 2 (RecordSamples (Inr [exampleSample])), Next_false None]\<rparr>"

text \<open>A series record that does not decode, then the end of the stream.\<close>

definition badSeriesWorld :: world where
  "badSeriesWorld =
     \<lparr>tail_err = None,
      reader_events =
        [Next_true None 0 (RecordSeries (Inl (Error ''decode series''))), Next_false None]\<rparr>"

text \<open>
  A series that carries no label at all, declared beside series 7, and a batch in which
  its sample comes first; a sample of the undeclared series 8.
\<close>

definition labellessSample :: RefSample where
  "labellessSample = \<lparr>sample_Ref = 9, sample_T = 1200, sample_V = 0\<rparr>"

definition unknownSample :: RefSample where
  "unknownSample = \<lparr>sample_Ref = 8, sample_T = 1500, sample_V = 0\<rparr>"

definition labellessCache :: seriesCache where
  "labellessCache = cache_set (cache_set newSeriesCache 7 exampleLabels 0) 9 [] 0"

definition labellessEvents :: "event list" where
  "labellessEvents =
     [Next_true None 0 (RecordSeries (Inr
        [\<lparr>series_Ref = 7, series_Labels = exampleLabels\<rparr>, \<lparr>series_Ref = 9, series_Labels = []\<rparr>])),
      Next_true None 0 (RecordSamples (Inr [labellessSample, exampleSample, unknownSample]))]"

text \<open>The same with series 7 declared without the name label.\<close>

definition unnamedSeriesRecord :: event where
  "unnamedSeriesRecord =
     Next_true None 0 (RecordSeries (Inr [\<lparr>series_Ref = 7, series_Labels = unnamedLabels\<rparr>]))"

definition unnamedLabellessCache :: seriesCache where
  "unnamedLabellessCache = cache_set (cache_set newSeriesCache 7 unnamedLabels 0) 9 [] 0"

definition unnamedLabellessEvents :: "event list" where
  "unnamedLabellessEvents =
     [Next_true None 0 (RecordSeries (Inr
        [\<lparr>series_Ref = 7, series_Labels = unnamedLabels\<rparr>, \<lparr>series_Ref = 9, series_Labels = []\<rparr>])),
      Next_true None 0 (RecordSamples (Inr [labellessSample, exampleSample]))]"

text \<open>
  A sorted label set whose name label stands between two others (an upper-case name sorts
  before \<open>__name__\<close>), and what is appended for the sample of S1 under it.
\<close>

definition zoneLabels :: Labels where
  "zoneLabels =
     [\<lparr>label_Name = ''Zone'', label_Value = ''eu''\<rparr>, \<lparr>label_Name = ''__name__'', label_Value = ''x''\<rparr>,
      \<lparr>label_Name = ''a'', label_Value = ''1''\<rparr>]"

definition zoneCache :: seriesCache where
  "zoneCache = cache_set newSeriesCache 7 zoneLabels 0"

definition zoneOutbound :: MetricFamily where
  "zoneOutbound =
     \<lparr>mf_MetricFamily =
        \<lparr>family_Name = Some ''x'',
         family_Type = Some MetricType_UNTYPED,
         family_Metric =
           [\<lparr>metric_Label = [\<lparr>pair_Name = Some ''Zone'', pair_Value = Some ''eu''\<rparr>,
                             \<lparr>pair_Name = Some ''a'', pair_Value = Some ''1''\<rparr>],
             metric_Untyped = Some (Untyped (Some 0x400C000000000000)),
             metric_TimestampMs = Some 1000\<rparr>]\<rparr>,
      mf_MetricResetTimestampMs = [0x8000000000000000],
      mf_TargetLabels = zoneLabels\<rparr>"


text \<open>A batch in segment 1: an undeclared sample, then the two samples of series 7.\<close>

definition batchEvent :: event where
  "batchEvent = Next_true None 1 (RecordSamples (Inr [unknownSample, exampleSample, nanSample]))"

section \<open>Lemmas on the model\<close>


text \<open>
  The loop over the labels keeps the value of the last name label and appends every other
  label, in order.
\<close>

lemma labelLoop_eq:
  "labelLoop ls (name, pairs) =
     ((case filter (\<lambda>l. label_Name l = MetricName) ls of
         [] \<Rightarrow> name
       | n # ns \<Rightarrow> Some (label_Value (last (n # ns)))),
      pairs @ map labelPair (filter (\<lambda>l. label_Name l \<noteq> MetricName) ls))"
proof (induction ls arbitrary: name pairs)
  case Nil
  show ?case by simp
next
  case (Cons l ls)
  show ?case
    by (cases "filter (\<lambda>l. label_Name l = MetricName) ls") (simp_all add: Cons.IH)
qed

lemma targetLabels_eq: "targetLabels lset = lset"
proof -
  have "foldl (\<lambda>acc l. acc @ [l]) acc lset = acc @ lset" for acc :: Labels
    by (induction lset arbitrary: acc) simp_all
  then show ?thesis by (simp add: targetLabels_def)
qed

text \<open>Once \<^verbatim>\<open>Run\<close> has returned or panicked, nothing more happens.\<close>

lemma step_halted: "status st \<noteq> Running \<Longrightarrow> step env st ev = st"
  by (simp add: step_def)

lemma loop_halted: "status st \<noteq> Running \<Longrightarrow> loop env st evs = st"
  by (induction evs) (simp_all add: step_halted)

lemma loop_append: "loop env st (evs @ evs') = loop env (loop env st evs) evs'"
  by (induction evs arbitrary: st) simp_all

lemma example_lookup: "cache_get exampleCache (sample_Ref exampleSample) = Some exampleLabels"
  by (simp add: exampleCache_def exampleSample_def cache_get_def cache_set_def newSeriesCache_def)

lemma example_family: "metricFamily exampleLabels exampleSample = exampleFamily"
  by (simp add: metricFamily_def exampleLabels_def exampleSample_def exampleFamily_def
      MetricName_def labelPair_def)

lemma example_construct:
  "NewMetricFamily exampleEnv (metricFamily exampleLabels exampleSample) [NoTimestamp exampleEnv]
     (targetLabels exampleLabels) = Inr exampleOutbound"
  by (simp add: example_family targetLabels_eq exampleEnv_def specNewMetricFamily_def
      exampleOutbound_def exampleFamily_def)

lemma example_processSample:
  "processSample exampleEnv exampleCache exampleSample = ([Append exampleOutbound], None)"
  using example_lookup example_construct
  by (simp add: processSample_def exampleLabels_def)

lemma Run_cancelTail: "cancelTail (fst (Run env r w)) = Some CancelTailContext"
  by (cases "tail_err w") (simp_all add: Run_def)

text \<open>Lines 64 to 66: an error that stands while \<^verbatim>\<open>Next()\<close> returns true is returned.\<close>

lemma Run_error_inside_loop:
  "status (snd (Run env r \<lparr>tail_err = None, reader_events = [Next_true (Some err) seg rec]\<rparr>))
     = Returned (Some err)"
  by (simp add: Run_def step_def)

text \<open>Whatever is appended for a sample was built from the labels its lookup returned.\<close>

lemma processSample_appended:
  assumes "Append f \<in> set (fst (processSample env c sample))"
  shows "\<exists>lset. cache_get c (sample_Ref sample) = Some lset \<and> lset \<noteq> []
           \<and> NewMetricFamily env (metricFamily lset sample) [NoTimestamp env] (targetLabels lset) = Inr f"
  using assms
  by (cases "cache_get c (sample_Ref sample)")
     (auto simp: processSample_def split: if_splits sum.splits)

subsection \<open>The pairing follows the loop\<close>







subsection \<open>One record more, and a sample inside a batch\<close>

lemma Run_snoc:
  "snd (Run env r \<lparr>tail_err = None, reader_events = evs @ [ev]\<rparr>) =
     step env (snd (Run env r \<lparr>tail_err = None, reader_events = evs\<rparr>)) ev"
  by (simp add: Run_def loop_append)

text \<open>
  A sample is reached when no sample before it in the batch has panicked; if it does not
  panic either, the batch goes on behind it.
\<close>

lemma processSamples_reach:
  assumes "snd (processSamples env c pre) = None"
    and "processSample env c sample = (es, None)"
  shows "processSamples env c (pre @ sample # rest) =
     (fst (processSamples env c pre) @ es @ fst (processSamples env c rest),
      snd (processSamples env c rest))"
  using assms(1)
proof (induction pre)
  case Nil
  show ?case using assms(2) by (cases "processSamples env c rest") simp
next
  case (Cons s pre)
  obtain es1 r1 where s: "processSample env c s = (es1, r1)" by (cases "processSample env c s")
  obtain es2 r2 where p: "processSamples env c pre = (es2, r2)" by (cases "processSamples env c pre")
  from Cons.prems s p have r1: "r1 = None" and r2: "r2 = None"
    by (cases r1; simp)+
  from Cons.IH p r2 have "processSamples env c (pre @ sample # rest) =
     (es2 @ es @ fst (processSamples env c rest), snd (processSamples env c rest))" by simp
  with s p r1 show ?case by simp
qed

lemma step_samples:
  assumes "status st = Running"
  shows "step env st (Next_true None seg (RecordSamples (Inr ss))) =
     st\<lparr>status := (case snd (processSamples env (cache st) ss) of
                     None \<Rightarrow> Running | Some p \<Rightarrow> Panicked p),
        effects := effects st @ fst (processSamples env (cache st) ss)\<rparr>"
proof (cases "processSamples env (cache st) ss")
  case (Pair es r)
  with assms show ?thesis by (cases r) (simp_all add: step_def)
qed

lemma step_reach:
  assumes "status st = Running"
    and "snd (processSamples env (cache st) pre) = None"
    and "processSample env (cache st) sample = (es, None)"
  shows "step env st (Next_true None seg (RecordSamples (Inr (pre @ sample # rest)))) =
     st\<lparr>status := (case snd (processSamples env (cache st) rest) of
                     None \<Rightarrow> Running | Some p \<Rightarrow> Panicked p),
        effects := effects st @ fst (processSamples env (cache st) pre) @ es
                     @ fst (processSamples env (cache st) rest)\<rparr>"
  by (simp add: step_samples [OF assms(1)] processSamples_reach [OF assms(2,3)])

subsection \<open>The scenarios, evaluated\<close>

lemma gc_exampleCache: "garbageCollect 0 exampleCache = exampleCache"
  by (rule ext) (simp add: garbageCollect_def exampleCache_def cache_set_def newSeriesCache_def)

lemma unknown8: "cache_get exampleCache 8 = None"
  by (simp add: exampleCache_def cache_get_def cache_set_def newSeriesCache_def)

lemma nan_lookup: "cache_get exampleCache (sample_Ref nanSample) = Some exampleLabels"
  by (simp add: exampleCache_def nanSample_def cache_get_def cache_set_def newSeriesCache_def)

lemma nan_processSample:
  "processSample exampleEnv exampleCache nanSample = ([Append nanOutbound], None)"
  by (simp add: processSample_def exampleCache_def nanSample_def cache_get_def cache_set_def
      newSeriesCache_def exampleEnv_def specNewMetricFamily_def metricFamily_def targetLabels_eq
      exampleLabels_def MetricName_def nanOutbound_def)


lemma rotation_run:
  "snd (Run exampleEnv exampleReader \<lparr>tail_err = None, reader_events = rotationEvents\<rparr>) =
     \<lparr>status = Running, cache = exampleCache,
      effects = [LogInfo ''Starting Prometheus reader...'', Append exampleOutbound,
                 LogWarnUnknownRef \<lparr>sample_Ref = 8, sample_T = 1500, sample_V = 0\<rparr>,
                 Append nanOutbound]\<rparr>"
  by (simp add: Run_def rotationEvents_def exampleSeriesRecord_def exampleSamplesRecord_def
      step_def processSeries_def
      exampleCache_def [symmetric] gc_exampleCache example_processSample nan_processSample
      processSample_def [of _ _ "\<lparr>sample_Ref = 8, sample_T = 1500, sample_V = 0\<rparr>"] unknown8)

lemma series_run:
  "snd (Run exampleEnv exampleReader \<lparr>tail_err = None, reader_events = [exampleSeriesRecord]\<rparr>) =
     \<lparr>status = Running, cache = exampleCache,
      effects = [LogInfo ''Starting Prometheus reader...'']\<rparr>"
  by (simp add: Run_def exampleSeriesRecord_def step_def processSeries_def exampleCache_def)

lemma unknown_processSample:
  "processSample exampleEnv exampleCache unknownSample = ([LogWarnUnknownRef unknownSample], None)"
  by (simp add: processSample_def unknownSample_def unknown8)


lemma labelless_run:
  "snd (Run exampleEnv exampleReader \<lparr>tail_err = None, reader_events = labellessEvents\<rparr>) =
     \<lparr>status = Panicked MakesliceCapOutOfRange, cache = labellessCache,
      effects = [LogInfo ''Starting Prometheus reader...'']\<rparr>"
  by (simp add: Run_def labellessEvents_def step_def processSeries_def labellessCache_def
      processSample_def cache_get_def cache_set_def newSeriesCache_def labellessSample_def)

lemma zone_lookup: "cache_get zoneCache (sample_Ref exampleSample) = Some zoneLabels"
  by (simp add: zoneCache_def exampleSample_def cache_get_def cache_set_def newSeriesCache_def)

lemma zone_processSample:
  "processSample exampleEnv zoneCache exampleSample = ([Append zoneOutbound], None)"
  by (simp add: processSample_def zoneCache_def cache_get_def cache_set_def newSeriesCache_def
      zoneLabels_def metricFamily_def MetricName_def labelPair_def exampleEnv_def
      specNewMetricFamily_def targetLabels_eq zoneOutbound_def exampleSample_def)


lemma unnamed_run:
  "snd (Run exampleEnv exampleReader \<lparr>tail_err = None, reader_events = [unnamedSeriesRecord]\<rparr>) =
     \<lparr>status = Running, cache = unnamedCache,
      effects = [LogInfo ''Starting Prometheus reader...'']\<rparr>"
  by (simp add: Run_def unnamedSeriesRecord_def step_def processSeries_def unnamedCache_def)

lemma unnamed_lookup: "cache_get unnamedCache (sample_Ref exampleSample) = Some unnamedLabels"
  by (simp add: unnamedCache_def exampleSample_def cache_get_def cache_set_def newSeriesCache_def)

lemma unnamed_construct:
  "NewMetricFamily exampleEnv (metricFamily unnamedLabels exampleSample)
      [NoTimestamp exampleEnv] (targetLabels unnamedLabels) = Inl (Error ''missing metric name'')"
  by (simp add: exampleEnv_def specNewMetricFamily_def metricFamily_def unnamedLabels_def
      MetricName_def)

lemma unnamed_processSample:
  "processSample exampleEnv unnamedCache exampleSample =
     ([LogWarnConstruct (Error ''missing metric name'')], None)"
  using unnamed_lookup unnamed_construct by (simp add: processSample_def unnamedLabels_def)

lemma unnamedLabelless_run:
  "snd (Run exampleEnv exampleReader \<lparr>tail_err = None, reader_events = unnamedLabellessEvents\<rparr>) =
     \<lparr>status = Panicked MakesliceCapOutOfRange, cache = unnamedLabellessCache,
      effects = [LogInfo ''Starting Prometheus reader...'']\<rparr>"
  by (simp add: Run_def unnamedLabellessEvents_def step_def processSeries_def
      unnamedLabellessCache_def processSample_def cache_get_def cache_set_def newSeriesCache_def
      labellessSample_def)

section \<open>The claims\<close>

text \<open>
  C1 (as amended). For every decoded sample that the loop reaches (\<^verbatim>\<open>Run\<close> is running when
  the record of the sample is read, and no sample before it in the batch has panicked),
  whose series-cache lookup succeeds with a label set that is not empty and for which
  \<^verbatim>\<open>NewMetricFamily\<close> returns no error, \<^verbatim>\<open>Run\<close> makes exactly one \<^verbatim>\<open>Append\<close> call, between
  the effects of the samples before it and those of the samples after it, and goes on with
  the rest of the batch. What it appends is what \<^verbatim>\<open>NewMetricFamily\<close> returned for the
  family built from the series' labels (the name label apart), the sample's value and the
  sample's timestamp, with the whole label set as target labels.
\<close>

theorem C1_one_append:
  assumes "snd (Run env r \<lparr>tail_err = None, reader_events = evs\<rparr>) = st"
    and "status st = Running"
    and "snd (processSamples env (cache st) pre) = None"
    and "cache_get (cache st) (sample_Ref sample) = Some lset"
    and "lset \<noteq> []"
    and "NewMetricFamily env (metricFamily lset sample) [NoTimestamp env] (targetLabels lset) = Inr f"
  shows "snd (Run env r \<lparr>tail_err = None,
            reader_events = evs @ [Next_true None seg (RecordSamples (Inr (pre @ sample # rest)))]\<rparr>) =
      st\<lparr>status := (case snd (processSamples env (cache st) rest) of
                      None \<Rightarrow> Running | Some p \<Rightarrow> Panicked p),
         effects := effects st @ fst (processSamples env (cache st) pre) @ [Append f]
                      @ fst (processSamples env (cache st) rest)\<rparr>
    \<and> processSample env (cache st) sample = ([Append f], None)
    \<and> targetLabels lset = lset
    \<and> family_Metric (metricFamily lset sample) =
        [\<lparr>metric_Label =
            map (\<lambda>l. \<lparr>pair_Name = Some (label_Name l), pair_Value = Some (label_Value l)\<rparr>)
              (filter (\<lambda>l. label_Name l \<noteq> MetricName) lset),
          metric_Untyped = Some (Untyped (Some (sample_V sample))),
          metric_TimestampMs = Some (sample_T sample)\<rparr>]"
proof -
  from assms(5) have "\<not> int (length lset) - 1 < 0" by (cases lset) simp_all
  with assms(4,6) have one: "processSample env (cache st) sample = ([Append f], None)"
    by (simp add: processSample_def)
  have "snd (Run env r \<lparr>tail_err = None,
            reader_events = evs @ [Next_true None seg (RecordSamples (Inr (pre @ sample # rest)))]\<rparr>) =
      st\<lparr>status := (case snd (processSamples env (cache st) rest) of
                      None \<Rightarrow> Running | Some p \<Rightarrow> Panicked p),
         effects := effects st @ fst (processSamples env (cache st) pre) @ [Append f]
                      @ fst (processSamples env (cache st) rest)\<rparr>"
    unfolding Run_snoc assms(1) by (rule step_reach [OF assms(2,3) one])
  moreover have "family_Metric (metricFamily lset sample) =
        [\<lparr>metric_Label =
            map (\<lambda>l. \<lparr>pair_Name = Some (label_Name l), pair_Value = Some (label_Value l)\<rparr>)
              (filter (\<lambda>l. label_Name l \<noteq> MetricName) lset),
          metric_Untyped = Some (Untyped (Some (sample_V sample))),
          metric_TimestampMs = Some (sample_T sample)\<rparr>]"
    by (simp add: metricFamily_def labelLoop_eq labelPair_def [abs_def])
  ultimately show ?thesis using one by (simp add: targetLabels_eq)
qed

text \<open>
  Scenario S1 inside a batch: after the declaration of series 7, the batch of an
  undeclared sample, the sample of S1 and a second sample of series 7 appends the sample
  of S1 once, as \<open>x{a="1"} 3.5 @1000\<close>, between the warning and the second sample.
\<close>

theorem C1_one_append_witness:
  "snd (Run exampleEnv exampleReader \<lparr>tail_err = None, reader_events = [exampleSeriesRecord]\<rparr>) =
     \<lparr>status = Running, cache = exampleCache,
      effects = [LogInfo ''Starting Prometheus reader...'']\<rparr>
   \<and> snd (processSamples exampleEnv exampleCache [unknownSample]) = None
   \<and> cache_get exampleCache (sample_Ref exampleSample) = Some exampleLabels
   \<and> exampleLabels \<noteq> []
   \<and> NewMetricFamily exampleEnv (metricFamily exampleLabels exampleSample) [NoTimestamp exampleEnv]
        (targetLabels exampleLabels) = Inr exampleOutbound
   \<and> snd (Run exampleEnv exampleReader
        \<lparr>tail_err = None, reader_events = [exampleSeriesRecord] @ [batchEvent]\<rparr>) =
     \<lparr>status = Running, cache = exampleCache,
      effects = [LogInfo ''Starting Prometheus reader...'', LogWarnUnknownRef unknownSample,
                 Append exampleOutbound, Append nanOutbound]\<rparr>
   \<and> family_Metric (metricFamily exampleLabels exampleSample) =
        [\<lparr>metric_Label = [\<lparr>pair_Name = Some ''a'', pair_Value = Some ''1''\<rparr>],
          metric_Untyped = Some (Untyped (Some 0x400C000000000000)),
          metric_TimestampMs = Some 1000\<rparr>]"
proof -
  let ?st = "\<lparr>status = Running, cache = exampleCache,
      effects = [LogInfo ''Starting Prometheus reader...'']\<rparr> :: MetricFamily run_state"
  have running: "status ?st = Running" by simp
  have pre: "snd (processSamples exampleEnv (cache ?st) [unknownSample]) = None"
    by (simp add: unknown_processSample)
  have look: "cache_get (cache ?st) (sample_Ref exampleSample) = Some exampleLabels"
    by (simp add: example_lookup)
  have ne: "exampleLabels \<noteq> []" by (simp add: exampleLabels_def)
  from C1_one_append [OF series_run running pre look ne example_construct, of 1 "[nanSample]"]
    series_run pre look ne example_construct
  show ?thesis
    by (simp add: batchEvent_def unknown_processSample nan_processSample example_family
        exampleFamily_def)
qed

text \<open>
  C1 as stated fails: the lookup succeeds and no \<^verbatim>\<open>Append\<close> is made, first for a series
  without the name label when \<^verbatim>\<open>NewMetricFamily\<close> refuses it (lines 119 to 122); then for a
  series with no label at all, where \<^verbatim>\<open>make\<close> on line 96 panics; and last for the sample
  of S1 itself when it stands behind such a sample in its batch, since the panic ends
  \<^verbatim>\<open>Run\<close> before the loop reaches it.
\<close>

theorem C1_counterexample:
  "cache_get unnamedCache (sample_Ref exampleSample) = Some unnamedLabels
   \<and> processSample exampleEnv unnamedCache exampleSample
       = ([LogWarnConstruct (Error ''missing metric name'')], None)
   \<and> cache_get labellessCache (sample_Ref labellessSample) = Some []
   \<and> processSample exampleEnv labellessCache labellessSample = ([], Some MakesliceCapOutOfRange)
   \<and> cache_get labellessCache (sample_Ref exampleSample) = Some exampleLabels
   \<and> snd (Run exampleEnv exampleReader \<lparr>tail_err = None, reader_events = labellessEvents\<rparr>) =
       \<lparr>status = Panicked MakesliceCapOutOfRange, cache = labellessCache,
        effects = [LogInfo ''Starting Prometheus reader...'']\<rparr>"
proof -
  have "cache_get labellessCache (sample_Ref labellessSample) = Some []"
    by (simp add: labellessCache_def labellessSample_def cache_get_def cache_set_def)
  moreover have "processSample exampleEnv labellessCache labellessSample
       = ([], Some MakesliceCapOutOfRange)"
    by (simp add: processSample_def labellessCache_def labellessSample_def cache_get_def
        cache_set_def)
  moreover have "cache_get labellessCache (sample_Ref exampleSample) = Some exampleLabels"
    by (simp add: labellessCache_def exampleSample_def cache_get_def cache_set_def
        newSeriesCache_def)
  ultimately show ?thesis by (simp add: labelless_run unnamed_lookup unnamed_processSample)
qed

text \<open>
  C2 (as amended). For every decoded sample that the loop reaches (\<^verbatim>\<open>Run\<close> is running when
  the record of the sample is read, and no sample before it in the batch has panicked) and
  whose series-cache lookup fails, \<^verbatim>\<open>Run\<close> makes no \<^verbatim>\<open>Append\<close> call for it and logs one
  warning that carries the sample, between the effects of the samples before it and those
  of the samples after it; that is all it does for the sample (no counter is kept), and
  the samples that follow in the batch are processed.
\<close>

theorem C2_unknown_ref_dropped:
  assumes "snd (Run env r \<lparr>tail_err = None, reader_events = evs\<rparr>) = st"
    and "status st = Running"
    and "snd (processSamples env (cache st) pre) = None"
    and "cache_get (cache st) (sample_Ref sample) = None"
  shows "snd (Run env r \<lparr>tail_err = None,
            reader_events = evs @ [Next_true None seg (RecordSamples (Inr (pre @ sample # rest)))]\<rparr>) =
      st\<lparr>status := (case snd (processSamples env (cache st) rest) of
                      None \<Rightarrow> Running | Some p \<Rightarrow> Panicked p),
         effects := effects st @ fst (processSamples env (cache st) pre)
                      @ [LogWarnUnknownRef sample] @ fst (processSamples env (cache st) rest)\<rparr>
    \<and> processSample env (cache st) sample = ([LogWarnUnknownRef sample], None)"
proof -
  from assms(4) have one: "processSample env (cache st) sample = ([LogWarnUnknownRef sample], None)"
    by (simp add: processSample_def)
  have "snd (Run env r \<lparr>tail_err = None,
            reader_events = evs @ [Next_true None seg (RecordSamples (Inr (pre @ sample # rest)))]\<rparr>) =
      st\<lparr>status := (case snd (processSamples env (cache st) rest) of
                      None \<Rightarrow> Running | Some p \<Rightarrow> Panicked p),
         effects := effects st @ fst (processSamples env (cache st) pre)
                      @ [LogWarnUnknownRef sample] @ fst (processSamples env (cache st) rest)\<rparr>"
    unfolding Run_snoc assms(1) by (rule step_reach [OF assms(2,3) one])
  with one show ?thesis by simp
qed

text \<open>
  An undeclared sample between two samples of series 7: the first is appended, the
  warning is logged, the last is appended.
\<close>

theorem C2_unknown_ref_dropped_witness:
  "snd (Run exampleEnv exampleReader \<lparr>tail_err = None, reader_events = [exampleSeriesRecord]\<rparr>) =
     \<lparr>status = Running, cache = exampleCache,
      effects = [LogInfo ''Starting Prometheus reader...'']\<rparr>
   \<and> snd (processSamples exampleEnv exampleCache [exampleSample]) = None
   \<and> cache_get exampleCache (sample_Ref unknownSample) = None
   \<and> snd (Run exampleEnv exampleReader
        \<lparr>tail_err = None,
         reader_events = [exampleSeriesRecord]
           @ [Next_true None 1 (RecordSamples (Inr ([exampleSample] @ unknownSample # [nanSample])))]\<rparr>) =
     \<lparr>status = Running, cache = exampleCache,
      effects = [LogInfo ''Starting Prometheus reader...'', Append exampleOutbound,
                 LogWarnUnknownRef unknownSample, Append nanOutbound]\<rparr>"
proof -
  let ?st = "\<lparr>status = Running, cache = exampleCache,
      effects = [LogInfo ''Starting Prometheus reader...'']\<rparr> :: MetricFamily run_state"
  have running: "status ?st = Running" by simp
  have pre: "snd (processSamples exampleEnv (cache ?st) [exampleSample]) = None"
    by (simp add: example_processSample)
  have look: "cache_get (cache ?st) (sample_Ref unknownSample) = None"
    by (simp add: unknownSample_def unknown8)
  from C2_unknown_ref_dropped [OF series_run running pre look, of 1 "[nanSample]"]
    series_run pre look
  show ?thesis
    by (simp add: example_processSample nan_processSample)
qed

text \<open>
  C2 as stated fails twice. On the counter: in scenario S3 the whole run logs its start,
  the warning and its end, and increments no counter. On "every sample": the undeclared
  sample that stands behind a sample of a label-less series in its batch gets no warning,
  since the panic of line 96 ends \<^verbatim>\<open>Run\<close> before the loop reaches it.
\<close>

theorem C2_counterexample:
  "effects (snd (Run exampleEnv exampleReader unknownRefWorld)) =
     [LogInfo ''Starting Prometheus reader...'', LogWarnUnknownRef exampleSample,
      LogInfo ''Done processing WAL.'']
   \<and> filter isIncCounter (effects (snd (Run exampleEnv exampleReader unknownRefWorld))) = []
   \<and> cache_get labellessCache (sample_Ref unknownSample) = None
   \<and> snd (Run exampleEnv exampleReader \<lparr>tail_err = None, reader_events = labellessEvents\<rparr>) =
       \<lparr>status = Panicked MakesliceCapOutOfRange, cache = labellessCache,
        effects = [LogInfo ''Starting Prometheus reader...'']\<rparr>"
proof -
  have "effects (snd (Run exampleEnv exampleReader unknownRefWorld)) =
     [LogInfo ''Starting Prometheus reader...'', LogWarnUnknownRef exampleSample,
      LogInfo ''Done processing WAL.'']"
    by (simp add: Run_def unknownRefWorld_def step_def processSample_def cache_get_def
        newSeriesCache_def)
  moreover have "cache_get labellessCache (sample_Ref unknownSample) = None"
    by (simp add: labellessCache_def unknownSample_def cache_get_def cache_set_def
        newSeriesCache_def)
  ultimately show ?thesis by (simp add: labelless_run)
qed

text \<open>
  C3 (the code at the failing input). When the reader reports its error the way an
  iterator does, \<^verbatim>\<open>Next()\<close> returning false with the error left in \<^verbatim>\<open>Err()\<close>, the loop ends,
  \<^verbatim>\<open>Run\<close> logs that it is done and returns nil: the error is never read.
\<close>

theorem C3_reader_error_returns_nil:
  "snd (Run env r \<lparr>tail_err = None, reader_events = [Next_false (Some err)]\<rparr>) =
     \<lparr>status = Returned None, cache = newSeriesCache,
      effects = [LogInfo ''Starting Prometheus reader...'', LogInfo ''Done processing WAL.'']\<rparr>"
  by (simp add: Run_def step_def)

text \<open>
  C4. For every translated sample (one for which \<^verbatim>\<open>Append\<close> is called), the family handed
  to \<^verbatim>\<open>NewMetricFamily\<close> has as its name the value of the name label of the series' label
  set (of the last one, should the set carry several; no name when it carries none), and
  its one metric has as labels the labels of the set other than the name label, each with
  its own name and value, in the original order.
\<close>

theorem C4_name_and_labels:
  assumes "cache_get c (sample_Ref sample) = Some lset"
    and "Append f \<in> set (fst (processSample env c sample))"
  shows "NewMetricFamily env (metricFamily lset sample) [NoTimestamp env] (targetLabels lset) = Inr f
    \<and> family_Name (metricFamily lset sample) =
        (case filter (\<lambda>l. label_Name l = MetricName) lset of
           [] \<Rightarrow> None
         | n # ns \<Rightarrow> Some (label_Value (last (n # ns))))
    \<and> map metric_Label (family_Metric (metricFamily lset sample)) =
        [map (\<lambda>l. \<lparr>pair_Name = Some (label_Name l), pair_Value = Some (label_Value l)\<rparr>)
           (filter (\<lambda>l. label_Name l \<noteq> MetricName) lset)]"
proof -
  from processSample_appended [OF assms(2)] assms(1)
  have "NewMetricFamily env (metricFamily lset sample) [NoTimestamp env] (targetLabels lset) = Inr f"
    by auto
  then show ?thesis by (simp add: metricFamily_def labelLoop_eq labelPair_def [abs_def])
qed

text \<open>
  With the name label between two others: the name is \<open>x\<close> and the labels are
  \<open>Zone = eu\<close>, \<open>a = 1\<close>, in this order.
\<close>

theorem C4_name_and_labels_witness:
  "cache_get zoneCache (sample_Ref exampleSample) = Some zoneLabels
   \<and> Append zoneOutbound \<in> set (fst (processSample exampleEnv zoneCache exampleSample))
   \<and> family_Name (metricFamily zoneLabels exampleSample) = Some ''x''
   \<and> map metric_Label (family_Metric (metricFamily zoneLabels exampleSample)) =
       [[\<lparr>pair_Name = Some ''Zone'', pair_Value = Some ''eu''\<rparr>,
         \<lparr>pair_Name = Some ''a'', pair_Value = Some ''1''\<rparr>]]"
proof -
  have app: "Append zoneOutbound \<in> set (fst (processSample exampleEnv zoneCache exampleSample))"
    by (simp add: zone_processSample)
  from C4_name_and_labels [OF zone_lookup app] zone_lookup app
  show ?thesis by (simp add: zoneLabels_def MetricName_def)
qed

text \<open>
  C5. For every translated sample \<open>(ref, t, v)\<close>, the one metric of the family handed to
  \<^verbatim>\<open>NewMetricFamily\<close> has the untyped value \<open>v\<close>, the same 64 bits whatever they encode, and
  the timestamp \<open>t\<close>.
\<close>

theorem C5_value_and_timestamp:
  assumes "cache_get c (sample_Ref sample) = Some lset"
    and "Append f \<in> set (fst (processSample env c sample))"
  shows "NewMetricFamily env (metricFamily lset sample) [NoTimestamp env] (targetLabels lset) = Inr f
    \<and> map metric_Untyped (family_Metric (metricFamily lset sample)) =
        [Some (Untyped (Some (sample_V sample)))]
    \<and> map metric_TimestampMs (family_Metric (metricFamily lset sample)) = [Some (sample_T sample)]"
proof -
  from processSample_appended [OF assms(2)] assms(1)
  have "NewMetricFamily env (metricFamily lset sample) [NoTimestamp env] (targetLabels lset) = Inr f"
    by auto
  then show ?thesis by (simp add: metricFamily_def split: prod.splits)
qed

text \<open>A NaN with a payload bit goes through with all its bits.\<close>

theorem C5_value_and_timestamp_witness:
  "cache_get exampleCache (sample_Ref nanSample) = Some exampleLabels
   \<and> Append nanOutbound \<in> set (fst (processSample exampleEnv exampleCache nanSample))
   \<and> map metric_Untyped (family_Metric (metricFamily exampleLabels nanSample)) =
       [Some (Untyped (Some 0x7FF8000000000001))]
   \<and> map metric_TimestampMs (family_Metric (metricFamily exampleLabels nanSample)) = [Some 2000]"
proof -
  have app: "Append nanOutbound \<in> set (fst (processSample exampleEnv exampleCache nanSample))"
    by (simp add: nan_processSample)
  from C5_value_and_timestamp [OF nan_lookup app] nan_lookup app
  show ?thesis by (simp add: nanSample_def)
qed

text \<open>
  C6. Every metric family that is appended was built by \<^verbatim>\<open>NewMetricFamily\<close> from a family
  of type untyped and from the reset timestamps \<open>[NoTimestamp]\<close>, whatever the sample.
\<close>

theorem C6_untyped_no_reset:
  assumes "Append f \<in> set (fst (processSample env c sample))"
  shows "\<exists>lset. cache_get c (sample_Ref sample) = Some lset
           \<and> NewMetricFamily env (metricFamily lset sample) [NoTimestamp env] (targetLabels lset) = Inr f
           \<and> family_Type (metricFamily lset sample) = Some MetricType_UNTYPED"
proof -
  from processSample_appended [OF assms] obtain lset where
    "cache_get c (sample_Ref sample) = Some lset"
    "NewMetricFamily env (metricFamily lset sample) [NoTimestamp env] (targetLabels lset) = Inr f"
    by blast
  moreover have "family_Type (metricFamily lset sample) = Some MetricType_UNTYPED"
    by (simp add: metricFamily_def split: prod.splits)
  ultimately show ?thesis by blast
qed

theorem C6_untyped_no_reset_witness:
  "Append exampleOutbound \<in> set (fst (processSample exampleEnv exampleCache exampleSample))
   \<and> (\<exists>lset. cache_get exampleCache (sample_Ref exampleSample) = Some lset
        \<and> NewMetricFamily exampleEnv (metricFamily lset exampleSample) [NoTimestamp exampleEnv]
            (targetLabels lset) = Inr exampleOutbound
        \<and> family_Type (metricFamily lset exampleSample) = Some MetricType_UNTYPED)
   \<and> mf_MetricResetTimestampMs exampleOutbound = [NoTimestamp exampleEnv]
   \<and> family_Type (mf_MetricFamily exampleOutbound) = Some MetricType_UNTYPED"
proof -
  have app: "Append exampleOutbound \<in> set (fst (processSample exampleEnv exampleCache exampleSample))"
    by (simp add: example_processSample)
  from C6_untyped_no_reset [OF app] app
  show ?thesis by (simp add: exampleOutbound_def exampleEnv_def exampleFamily_def)
qed




text \<open>
  C8. While \<^verbatim>\<open>Run\<close> is still running after the events \<open>evs\<close>, \<^verbatim>\<open>Stop\<close> finds the cancel
  function and does not fault; and once the reader then observes the cancellation
  (\<^verbatim>\<open>Next()\<close> returns false with no error), the loop exits and \<^verbatim>\<open>Run\<close> returns nil, with
  the cache and every effect of the records read before kept, the final log line added,
  and whatever the reader would have yielded afterwards ignored.
\<close>

theorem C8_cancel_returns_nil:
  assumes "status (snd (Run env r \<lparr>tail_err = None, reader_events = evs\<rparr>)) = Running"
  shows "snd (Run env r \<lparr>tail_err = None, reader_events = evs @ Next_false None # rest\<rparr>) =
      (snd (Run env r \<lparr>tail_err = None, reader_events = evs\<rparr>))
        \<lparr>status := Returned None,
         effects := effects (snd (Run env r \<lparr>tail_err = None, reader_events = evs\<rparr>))
                      @ [LogInfo ''Done processing WAL.'']\<rparr>
    \<and> Stop (fst (Run env r \<lparr>tail_err = None, reader_events = evs\<rparr>)) = Inr CancelTailContext"
proof -
  let ?st = "loop env \<lparr>status = Running, cache = newSeriesCache,
      effects = [LogInfo ''Starting Prometheus reader...'']\<rparr> evs"
  from assms have running: "status ?st = Running" by (simp add: Run_def)
  have "loop env ?st (Next_false None # rest) =
      ?st\<lparr>status := Returned None, effects := effects ?st @ [LogInfo ''Done processing WAL.'']\<rparr>"
    using running by (simp add: step_def loop_halted)
  then show ?thesis by (simp add: Run_def loop_append Stop_def)
qed

theorem C8_cancel_returns_nil_witness:
  "status (snd (Run exampleEnv exampleReader \<lparr>tail_err = None, reader_events = rotationEvents\<rparr>))
     = Running
   \<and> snd (Run exampleEnv exampleReader
       \<lparr>tail_err = None, reader_events = rotationEvents @ Next_false None # [exampleSamplesRecord]\<rparr>) =
     \<lparr>status = Returned None, cache = exampleCache,
      effects = [LogInfo ''Starting Prometheus reader...'', Append exampleOutbound,
                 LogWarnUnknownRef \<lparr>sample_Ref = 8, sample_T = 1500, sample_V = 0\<rparr>,
                 Append nanOutbound, LogInfo ''Done processing WAL.'']\<rparr>"
proof -
  have running: "status (snd (Run exampleEnv exampleReader
      \<lparr>tail_err = None, reader_events = rotationEvents\<rparr>)) = Running"
    by (simp add: rotation_run)
  from C8_cancel_returns_nil [OF running, of "[exampleSamplesRecord]"] running
  show ?thesis by (simp add: rotation_run)
qed

text \<open>
  C9 (as amended). While \<^verbatim>\<open>Run\<close> is running, a series record or a sample record that fails
  to decode only adds one error log entry: nothing is appended, the cache is unchanged and
  \<^verbatim>\<open>Run\<close> is still running, ready for the next record. A sample that the loop reaches (no
  sample before it in the batch has panicked), whose lookup gives a label set that is not
  empty and for which \<^verbatim>\<open>NewMetricFamily\<close> returns an error only adds one warning that
  carries the error, between the effects of the samples before it and those of the samples
  after it: nothing is appended for it and the samples that follow are processed. No count
  is produced.
\<close>

theorem C9_local_recovery:
  assumes "snd (Run env r \<lparr>tail_err = None, reader_events = evs\<rparr>) = st"
    and "status st = Running"
  shows "snd (Run env r \<lparr>tail_err = None,
            reader_events = evs @ [Next_true None seg (RecordSeries (Inl e))]\<rparr>) =
      st\<lparr>effects := effects st @ [LogError e]\<rparr>
    \<and> snd (Run env r \<lparr>tail_err = None,
            reader_events = evs @ [Next_true None seg (RecordSamples (Inl e))]\<rparr>) =
      st\<lparr>effects := effects st @ [LogError e]\<rparr>
    \<and> status (st\<lparr>effects := effects st @ [LogError e]\<rparr>) = Running
    \<and> (snd (processSamples env (cache st) pre) = None
        \<and> cache_get (cache st) (sample_Ref sample) = Some lset
        \<and> lset \<noteq> []
        \<and> NewMetricFamily env (metricFamily lset sample) [NoTimestamp env] (targetLabels lset) = Inl err
       \<longrightarrow> snd (Run env r \<lparr>tail_err = None,
              reader_events = evs @ [Next_true None seg (RecordSamples (Inr (pre @ sample # rest)))]\<rparr>) =
            st\<lparr>status := (case snd (processSamples env (cache st) rest) of
                            None \<Rightarrow> Running | Some p \<Rightarrow> Panicked p),
               effects := effects st @ fst (processSamples env (cache st) pre)
                            @ [LogWarnConstruct err] @ fst (processSamples env (cache st) rest)\<rparr>)"
proof -
  have series: "snd (Run env r \<lparr>tail_err = None,
            reader_events = evs @ [Next_true None seg (RecordSeries (Inl e))]\<rparr>) =
      st\<lparr>effects := effects st @ [LogError e]\<rparr>"
    unfolding Run_snoc assms(1) using assms(2) by (simp add: step_def)
  have samples: "snd (Run env r \<lparr>tail_err = None,
            reader_events = evs @ [Next_true None seg (RecordSamples (Inl e))]\<rparr>) =
      st\<lparr>effects := effects st @ [LogError e]\<rparr>"
    unfolding Run_snoc assms(1) using assms(2) by (simp add: step_def)
  have construct: "snd (Run env r \<lparr>tail_err = None,
              reader_events = evs @ [Next_true None seg (RecordSamples (Inr (pre @ sample # rest)))]\<rparr>) =
            st\<lparr>status := (case snd (processSamples env (cache st) rest) of
                            None \<Rightarrow> Running | Some p \<Rightarrow> Panicked p),
               effects := effects st @ fst (processSamples env (cache st) pre)
                            @ [LogWarnConstruct err] @ fst (processSamples env (cache st) rest)\<rparr>"
    if reach: "snd (processSamples env (cache st) pre) = None"
      and look: "cache_get (cache st) (sample_Ref sample) = Some lset"
      and ne: "lset \<noteq> []"
      and fails: "NewMetricFamily env (metricFamily lset sample) [NoTimestamp env]
                    (targetLabels lset) = Inl err"
  proof -
    from ne have "\<not> int (length lset) - 1 < 0" by (cases lset) simp_all
    with look fails have one: "processSample env (cache st) sample = ([LogWarnConstruct err], None)"
      by (simp add: processSample_def)
    show ?thesis
      unfolding Run_snoc assms(1) by (rule step_reach [OF assms(2) reach one])
  qed
  from series samples construct assms(2) show ?thesis by simp
qed

text \<open>
  After the declaration of a series without the name label: a series record and a sample
  record that do not decode each add one error entry and leave \<^verbatim>\<open>Run\<close> running, and a batch
  of two samples of the series adds two warnings and appends nothing.
\<close>

theorem C9_local_recovery_witness:
  "snd (Run exampleEnv exampleReader \<lparr>tail_err = None, reader_events = [unnamedSeriesRecord]\<rparr>) =
     \<lparr>status = Running, cache = unnamedCache,
      effects = [LogInfo ''Starting Prometheus reader...'']\<rparr>
   \<and> snd (Run exampleEnv exampleReader \<lparr>tail_err = None,
        reader_events = [unnamedSeriesRecord]
          @ [Next_true None 0 (RecordSeries (Inl (Error ''decode series'')))]\<rparr>) =
     \<lparr>status = Running, cache = unnamedCache,
      effects = [LogInfo ''Starting Prometheus reader...'', LogError (Error ''decode series'')]\<rparr>
   \<and> snd (Run exampleEnv exampleReader \<lparr>tail_err = None,
        reader_events = [unnamedSeriesRecord]
          @ [Next_true None 0 (RecordSamples (Inl (Error ''decode series'')))]\<rparr>) =
     \<lparr>status = Running, cache = unnamedCache,
      effects = [LogInfo ''Starting Prometheus reader...'', LogError (Error ''decode series'')]\<rparr>
   \<and> snd (processSamples exampleEnv unnamedCache []) = None
   \<and> cache_get unnamedCache (sample_Ref exampleSample) = Some unnamedLabels
   \<and> unnamedLabels \<noteq> []
   \<and> NewMetricFamily exampleEnv (metricFamily unnamedLabels exampleSample)
        [NoTimestamp exampleEnv] (targetLabels unnamedLabels) = Inl (Error ''missing metric name'')
   \<and> snd (Run exampleEnv exampleReader \<lparr>tail_err = None,
        reader_events = [unnamedSeriesRecord]
          @ [Next_true None 0 (RecordSamples (Inr ([] @ exampleSample # [exampleSample])))]\<rparr>) =
     \<lparr>status = Running, cache = unnamedCache,
      effects = [LogInfo ''Starting Prometheus reader...'',
                 LogWarnConstruct (Error ''missing metric name''),
                 LogWarnConstruct (Error ''missing metric name'')]\<rparr>"
proof -
  let ?st = "\<lparr>status = Running, cache = unnamedCache,
      effects = [LogInfo ''Starting Prometheus reader...'']\<rparr> :: MetricFamily run_state"
  have running: "status ?st = Running" by simp
  have ne: "unnamedLabels \<noteq> []" by (simp add: unnamedLabels_def)
  from C9_local_recovery [OF unnamed_run running,
      of 0 "Error ''decode series''" "[]" exampleSample unnamedLabels "Error ''missing metric name''"
         "[exampleSample]"]
    unnamed_run unnamed_lookup ne unnamed_construct
  show ?thesis by (simp add: unnamed_processSample)
qed

text \<open>
  C9 as stated fails twice. On the count: a run over a series record that does not
  decode logs its start, the error and its end, and increments no counter. On the
  recovery of every sample that misses its name label: for the sample of a series with no
  label at all, whose family \<^verbatim>\<open>NewMetricFamily\<close> would refuse, \<^verbatim>\<open>make\<close> on line 96 panics
  first and ends \<^verbatim>\<open>Run\<close>, and the sample behind it in the batch, whose family would be
  refused too, gets no warning.
\<close>

theorem C9_counterexample:
  "effects (snd (Run exampleEnv exampleReader badSeriesWorld)) =
     [LogInfo ''Starting Prometheus reader...'', LogError (Error ''decode series''),
      LogInfo ''Done processing WAL.'']
   \<and> filter isIncCounter (effects (snd (Run exampleEnv exampleReader badSeriesWorld))) = []
   \<and> cache_get unnamedLabellessCache (sample_Ref labellessSample) = Some []
   \<and> NewMetricFamily exampleEnv (metricFamily [] labellessSample) [NoTimestamp exampleEnv]
        (targetLabels []) = Inl (Error ''missing metric name'')
   \<and> cache_get unnamedLabellessCache (sample_Ref exampleSample) = Some unnamedLabels
   \<and> NewMetricFamily exampleEnv (metricFamily unnamedLabels exampleSample) [NoTimestamp exampleEnv]
        (targetLabels unnamedLabels) = Inl (Error ''missing metric name'')
   \<and> snd (Run exampleEnv exampleReader \<lparr>tail_err = None, reader_events = unnamedLabellessEvents\<rparr>) =
       \<lparr>status = Panicked MakesliceCapOutOfRange, cache = unnamedLabellessCache,
        effects = [LogInfo ''Starting Prometheus reader...'']\<rparr>"
proof -
  have "effects (snd (Run exampleEnv exampleReader badSeriesWorld)) =
     [LogInfo ''Starting Prometheus reader...'', LogError (Error ''decode series''),
      LogInfo ''Done processing WAL.'']"
    by (simp add: Run_def badSeriesWorld_def step_def)
  moreover have "cache_get unnamedLabellessCache (sample_Ref labellessSample) = Some []"
    by (simp add: unnamedLabellessCache_def labellessSample_def cache_get_def cache_set_def)
  moreover have "NewMetricFamily exampleEnv (metricFamily [] labellessSample)
        [NoTimestamp exampleEnv] (targetLabels []) = Inl (Error ''missing metric name'')"
    by (simp add: exampleEnv_def specNewMetricFamily_def metricFamily_def)
  moreover have "cache_get unnamedLabellessCache (sample_Ref exampleSample) = Some unnamedLabels"
    by (simp add: unnamedLabellessCache_def exampleSample_def cache_get_def cache_set_def
        newSeriesCache_def)
  ultimately show ?thesis by (simp add: unnamedLabelless_run unnamed_construct)
qed

text \<open>
  C10. \<^verbatim>\<open>Stop\<close> on a reader fresh from \<^verbatim>\<open>NewPrometheusReader\<close> calls a nil function and
  panics; on the reader as \<^verbatim>\<open>Run\<close> leaves it, whatever the world, it invokes the cancel
  function that \<^verbatim>\<open>Run\<close> stored.
\<close>

theorem C10_stop_before_run:
  "Stop (NewPrometheusReader lg dir app) = Inl NilFuncCall
   \<and> Stop (fst (Run env (NewPrometheusReader lg dir app) w)) = Inr CancelTailContext"
  by (simp add: Stop_def Run_cancelTail) (simp add: NewPrometheusReader_def)

end
